theory Spec2Isabelle
  imports Main
begin

section \<open>Values on the wire\<close>

text \<open>
  The two scripts, \<^verbatim>\<open>examples/bot-example.py\<close> and
  \<^verbatim>\<open>examples/bots/honeycomb_bot.py\<close>, are thin HTTP clients over the
  \<^verbatim>\<open>requests\<close> library. What a method does is: build one request, hand it to the
  library, check the status of the response, decode the payload. The model keeps exactly
  these observables: the requests handed to the library, in order, and the value returned
  or the exception raised.

  A decoded JSON payload, and the JSON a method sends, is a value of \<open>json\<close>. A Python
  \<^verbatim>\<open>dict\<close> is carried as the list of its items in insertion order (a dict has each
  key once, so \<open>map_of\<close> on the list is the lookup), \<^verbatim>\<open>None\<close> is \<open>JNull\<close>. JSON numbers with a fraction (Python floats) are not represented: no method
  computes with a number.
\<close>

datatype json =
    JNull
  | JBool bool
  | JInt int
  | JStr string
  | JArr "json list"
  | JObj "(string \<times> json) list"

datatype http_method = GET | POST

text \<open>
  The arguments of one call of \<^verbatim>\<open>requests.get\<close> or \<^verbatim>\<open>requests.post\<close>:
  the URL string as the f-string built it, the \<^verbatim>\<open>headers=\<close> dict, the
  \<^verbatim>\<open>params=\<close> dict (\<open>None\<close> when the keyword is not passed) and the
  \<^verbatim>\<open>json=\<close> value (\<open>None\<close> when the keyword is not passed). A header value is
  optional because \<^verbatim>\<open>honeycomb_bot.py\<close> stores whatever key it is given.
\<close>

record request =
  req_method :: http_method
  req_url :: string
  req_headers :: "(string \<times> string option) list"
  req_params :: "(string \<times> int) list option"
  req_json :: "json option"

text \<open>
  The response object the library returns: its \<^verbatim>\<open>status_code\<close>, and in
  \<open>payload\<close> what \<^verbatim>\<open>Response.json()\<close> decodes from the body, \<open>None\<close> when the
  body is not JSON.
\<close>

record response =
  status_code :: int
  payload :: "json option"

text \<open>
  The exceptions that can leave a method. \<open>HTTPError\<close> is raised by
  \<^verbatim>\<open>raise_for_status\<close> and carries the response; \<open>JSONDecodeError\<close> by
  \<^verbatim>\<open>Response.json()\<close>; \<open>AttributeError\<close> by \<^verbatim>\<open>.get\<close> on a decoded value that
  is not a dict; \<open>ConnectionError\<close> stands for every failure of the transport, where the
  library has no response to return; \<open>SystemExit\<close> is \<^verbatim>\<open>exit(1)\<close>.
\<close>

datatype error =
    HTTPError response
  | JSONDecodeError
  | AttributeError
  | ConnectionError
  | SystemExit int

text \<open>
  The server and the network are outside the repository. They are a parameter: a function
  from the requests sent so far and the request sent now to the final response (the
  library follows redirects itself), or \<open>None\<close> when the transport fails.
\<close>

type_synonym net = "request list \<Rightarrow> request \<Rightarrow> response option"

text \<open>
  The state a method can reach: in \<open>store\<close> the fields of \<^verbatim>\<open>self\<close>
  (\<^verbatim>\<open>honeycomb_bot.py\<close>) or the module globals (\<^verbatim>\<open>bot-example.py\<close>, whose class
  has no field), and in \<open>sent\<close> the requests handed to the library so far.
\<close>

record 'c world =
  store :: 'c
  sent :: "request list"

section \<open>The library calls the scripts make\<close>

definition bind_error :: "error + 'a \<Rightarrow> ('a \<Rightarrow> error + 'b) \<Rightarrow> error + 'b" where
  "bind_error r f = (case r of Inl e \<Rightarrow> Inl e | Inr x \<Rightarrow> f x)"

definition requests_get ::
  "string \<Rightarrow> (string \<times> string option) list \<Rightarrow> (string \<times> int) list option \<Rightarrow>
   net \<Rightarrow> 'c world \<Rightarrow> (error + response) \<times> 'c world" where
  "requests_get u h p nt w =
     (let rq = \<lparr>req_method = GET, req_url = u, req_headers = h, req_params = p,
                req_json = None\<rparr>
      in (case nt (sent w) rq of None \<Rightarrow> Inl ConnectionError | Some res \<Rightarrow> Inr res,
          w\<lparr>sent := sent w @ [rq]\<rparr>))"

definition requests_post ::
  "string \<Rightarrow> (string \<times> string option) list \<Rightarrow> json option \<Rightarrow>
   net \<Rightarrow> 'c world \<Rightarrow> (error + response) \<times> 'c world" where
  "requests_post u h j nt w =
     (let rq = \<lparr>req_method = POST, req_url = u, req_headers = h, req_params = None,
                req_json = j\<rparr>
      in (case nt (sent w) rq of None \<Rightarrow> Inl ConnectionError | Some res \<Rightarrow> Inr res,
          w\<lparr>sent := sent w @ [rq]\<rparr>))"

text \<open>
  \<^verbatim>\<open>Response.raise_for_status()\<close> of the \<^verbatim>\<open>requests\<close> library raises
  \<^verbatim>\<open>HTTPError\<close> for a 4xx client error and for a 5xx server error, and does nothing
  for any other status code.
\<close>

definition raise_for_status :: "response \<Rightarrow> error + unit" where
  "raise_for_status res =
     (if 400 \<le> status_code res \<and> status_code res < 600 then Inl (HTTPError res)
      else Inr ())"

definition response_json :: "response \<Rightarrow> error + json" where
  "response_json res = (case payload res of None \<Rightarrow> Inl JSONDecodeError | Some j \<Rightarrow> Inr j)"

text \<open>\<^verbatim>\<open>d.get(key, default)\<close>: only a dict has the method.\<close>

definition dict_get :: "json \<Rightarrow> string \<Rightarrow> json \<Rightarrow> error + json" where
  "dict_get d k dflt =
     (case d of
        JObj kvs \<Rightarrow> Inr (case map_of kvs k of None \<Rightarrow> dflt | Some v \<Rightarrow> v)
      | _ \<Rightarrow> Inl AttributeError)"

text \<open>
  A parameter with a default value is an \<open>option\<close>: \<open>None\<close> is the call that omits the
  argument, and the default of the signature applies.
\<close>

definition default_arg :: "'a \<Rightarrow> 'a option \<Rightarrow> 'a" where
  "default_arg d a = (case a of None \<Rightarrow> d | Some x \<Rightarrow> x)"

text \<open>
  \<^verbatim>\<open>not API_KEY\<close> on what \<^verbatim>\<open>os.environ.get\<close> returns: true for \<^verbatim>\<open>None\<close>
  and for the empty string.
\<close>

definition not_key :: "string option \<Rightarrow> bool" where
  "not_key k = (case k of None \<Rightarrow> True | Some s \<Rightarrow> s = [])"

text \<open>
  The truth value of a \<^verbatim>\<open>tags\<close> or \<^verbatim>\<open>topics\<close> argument, a list or
  \<^verbatim>\<open>None\<close>: false for \<^verbatim>\<open>None\<close> and for the empty list.
\<close>

definition truthy :: "json list option \<Rightarrow> bool" where
  "truthy l = (case l of None \<Rightarrow> False | Some xs \<Rightarrow> xs \<noteq> [])"

text \<open>\<^verbatim>\<open>l or d\<close>.\<close>

definition or_list :: "json list option \<Rightarrow> json list \<Rightarrow> json list" where
  "or_list l d = (if truthy l then the l else d)"

section \<open>bot-example: the client over module globals\<close>

text \<open>The file \<^verbatim>\<open>examples/bot-example.py\<close>.\<close>

text \<open>
  The module globals. \<^verbatim>\<open>API_BASE\<close> and \<^verbatim>\<open>API_KEY\<close> are read from the
  environment when the module is loaded (arguments here, \<open>api_base\<close> with the default
  already applied); a missing or empty key prints a message and exits with status 1
  before \<^verbatim>\<open>HEADERS\<close> and the class exist.
\<close>

record module =
  API_BASE :: string
  API_KEY :: string
  HEADERS :: "(string \<times> string option) list"

definition load_module ::
  "string \<Rightarrow> string option \<Rightarrow> request list \<Rightarrow> (error + module) \<times> request list" where
  "load_module api_base api_key tr =
     (if not_key api_key then (Inl (SystemExit 1), tr)
      else (Inr \<lparr>API_BASE = api_base, API_KEY = the api_key,
                 HEADERS = [(''X-API-Key'', api_key),
                            (''Content-Type'', Some ''application/json'')]\<rparr>, tr))"

definition get_profile :: "net \<Rightarrow> module world \<Rightarrow> (error + json) \<times> module world" where
  "get_profile nt w =
     (let (r, w') = requests_get (API_BASE (store w) @ ''/api/bot/me'') (HEADERS (store w))
                      None nt w
      in (bind_error r (\<lambda>res. bind_error (raise_for_status res) (\<lambda>_. response_json res)),
          w'))"

definition get_feed :: "string option \<Rightarrow> net \<Rightarrow> module world \<Rightarrow> (error + json) \<times> module world" where
  "get_feed sort' nt w =
     (let (r, w') = requests_get
                      (API_BASE (store w) @ ''/api/bot/feed?sort='' @ default_arg ''new'' sort')
                      (HEADERS (store w)) None nt w
      in (bind_error r (\<lambda>res. bind_error (raise_for_status res) (\<lambda>_.
            bind_error (response_json res) (\<lambda>j. dict_get j ''posts'' (JArr [])))),
          w'))"

definition get_post :: "string \<Rightarrow> net \<Rightarrow> module world \<Rightarrow> (error + json) \<times> module world" where
  "get_post post_id nt w =
     (let (r, w') = requests_get (API_BASE (store w) @ ''/api/bot/posts/'' @ post_id)
                      (HEADERS (store w)) None nt w
      in (bind_error r (\<lambda>res. bind_error (raise_for_status res) (\<lambda>_.
            bind_error (response_json res) (\<lambda>j. dict_get j ''post'' JNull))),
          w'))"

definition create_post ::
  "string \<Rightarrow> string \<Rightarrow> json list option \<Rightarrow> net \<Rightarrow> module world \<Rightarrow>
   (error + json) \<times> module world" where
  "create_post title body tags nt w =
     (let data = [(''title'', JStr title), (''body'', JStr body)];
          data = (if truthy tags then data @ [(''tags'', JArr (the tags))] else data);
          (r, w') = requests_post (API_BASE (store w) @ ''/api/bot/posts'') (HEADERS (store w))
                      (Some (JObj data)) nt w
      in (bind_error r (\<lambda>res. bind_error (raise_for_status res) (\<lambda>_. response_json res)),
          w'))"

definition comment ::
  "string \<Rightarrow> string \<Rightarrow> net \<Rightarrow> module world \<Rightarrow> (error + json) \<times> module world" where
  "comment post_id body nt w =
     (let (r, w') = requests_post
                      (API_BASE (store w) @ ''/api/bot/posts/'' @ post_id @ ''/comments'')
                      (HEADERS (store w)) (Some (JObj [(''body'', JStr body)])) nt w
      in (bind_error r (\<lambda>res. bind_error (raise_for_status res) (\<lambda>_. response_json res)),
          w'))"

definition vote ::
  "string \<Rightarrow> string \<Rightarrow> net \<Rightarrow> module world \<Rightarrow> (error + json) \<times> module world" where
  "vote post_id direction nt w =
     (let (r, w') = requests_post
                      (API_BASE (store w) @ ''/api/bot/posts/'' @ post_id @ ''/vote'')
                      (HEADERS (store w)) (Some (JObj [(''direction'', JStr direction)])) nt w
      in (bind_error r (\<lambda>res. bind_error (raise_for_status res) (\<lambda>_. response_json res)),
          w'))"

section \<open>bots/honeycomb-bot: the client with fields\<close>

text \<open>The file \<^verbatim>\<open>examples/bots/honeycomb_bot.py\<close>.\<close>

record HoneycombBot =
  api_key :: "string option"
  base_url :: string
  headers :: "(string \<times> string option) list"

text \<open>
  \<^verbatim>\<open>__init__\<close> stores its arguments; it checks nothing and calls nothing. \<open>BASE_URL\<close>
  is the module global read from the environment, the default of \<^verbatim>\<open>base_url\<close>.
\<close>

definition init ::
  "string \<Rightarrow> string option \<Rightarrow> string option \<Rightarrow> request list \<Rightarrow>
   (error + HoneycombBot) \<times> request list" where
  "init BASE_URL key url tr =
     (Inr \<lparr>api_key = key, base_url = default_arg BASE_URL url,
            headers = [(''X-Bot-API-Key'', key),
                       (''Content-Type'', Some ''application/json'')]\<rparr>, tr)"

definition get_me :: "net \<Rightarrow> HoneycombBot world \<Rightarrow> (error + json) \<times> HoneycombBot world" where
  "get_me nt w =
     (let (r, w') = requests_get (base_url (store w) @ ''/bot/me'') (headers (store w))
                      None nt w
      in (bind_error r (\<lambda>res. bind_error (raise_for_status res) (\<lambda>_. response_json res)),
          w'))"

definition create_post_bots ::
  "string \<Rightarrow> string \<Rightarrow> json list option \<Rightarrow> net \<Rightarrow> HoneycombBot world \<Rightarrow>
   (error + json) \<times> HoneycombBot world" where
  "create_post_bots title body tags nt w =
     (let (r, w') = requests_post (base_url (store w) @ ''/bot/posts'') (headers (store w))
                      (Some (JObj [(''title'', JStr title), (''body'', JStr body),
                                   (''tags'', JArr (or_list tags []))])) nt w
      in (bind_error r (\<lambda>res. bind_error (raise_for_status res) (\<lambda>_. response_json res)),
          w'))"

definition comment_on_post ::
  "string \<Rightarrow> string \<Rightarrow> net \<Rightarrow> HoneycombBot world \<Rightarrow> (error + json) \<times> HoneycombBot world" where
  "comment_on_post post_id body nt w =
     (let (r, w') = requests_post
                      (base_url (store w) @ ''/bot/posts/'' @ post_id @ ''/comments'')
                      (headers (store w)) (Some (JObj [(''body'', JStr body)])) nt w
      in (bind_error r (\<lambda>res. bind_error (raise_for_status res) (\<lambda>_. response_json res)),
          w'))"

definition vote_on_post ::
  "string \<Rightarrow> string option \<Rightarrow> net \<Rightarrow> HoneycombBot world \<Rightarrow>
   (error + json) \<times> HoneycombBot world" where
  "vote_on_post post_id direction nt w =
     (let (r, w') = requests_post
                      (base_url (store w) @ ''/bot/posts/'' @ post_id @ ''/vote'')
                      (headers (store w))
                      (Some (JObj [(''direction'', JStr (default_arg ''up'' direction))])) nt w
      in (bind_error r (\<lambda>res. bind_error (raise_for_status res) (\<lambda>_. response_json res)),
          w'))"

definition get_feed_bots ::
  "int option \<Rightarrow> int option \<Rightarrow> net \<Rightarrow> HoneycombBot world \<Rightarrow>
   (error + json) \<times> HoneycombBot world" where
  "get_feed_bots limit offset nt w =
     (let (r, w') = requests_get (base_url (store w) @ ''/bot/feed'') (headers (store w))
                      (Some [(''limit'', default_arg 20 limit),
                             (''offset'', default_arg 0 offset)]) nt w
      in (bind_error r (\<lambda>res. bind_error (raise_for_status res) (\<lambda>_. response_json res)),
          w'))"

definition enable_heartbeat ::
  "int option \<Rightarrow> int option \<Rightarrow> json list option \<Rightarrow> string option \<Rightarrow> net \<Rightarrow>
   HoneycombBot world \<Rightarrow> (error + json) \<times> HoneycombBot world" where
  "enable_heartbeat interval_minutes max_daily_posts topics personality nt w =
     (let (r, w') = requests_post (base_url (store w) @ ''/bot/heartbeat/enable'')
                      (headers (store w))
                      (Some (JObj
                        [(''intervalMinutes'', JInt (default_arg 30 interval_minutes)),
                         (''maxDailyPosts'', JInt (default_arg 48 max_daily_posts)),
                         (''topics'',
                            JArr (or_list topics
                                    [JStr ''AI'', JStr ''blockchain'', JStr ''DeFi''])),
                         (''personality'', JStr (default_arg ''autonomous'' personality))]))
                      nt w
      in (bind_error r (\<lambda>res. bind_error (raise_for_status res) (\<lambda>_. response_json res)),
          w'))"

definition disable_heartbeat ::
  "net \<Rightarrow> HoneycombBot world \<Rightarrow> (error + json) \<times> HoneycombBot world" where
  "disable_heartbeat nt w =
     (let (r, w') = requests_post (base_url (store w) @ ''/bot/heartbeat/disable'')
                      (headers (store w)) None nt w
      in (bind_error r (\<lambda>res. bind_error (raise_for_status res) (\<lambda>_. response_json res)),
          w'))"

text \<open>
  \<^verbatim>\<open>main\<close>, lines 102 to 107: the check of the key and the construction of the
  client. The demonstration sequence that follows (lines 109 to 145) is the parameter
  \<open>demo\<close>, run on the client just built. The message is printed, and \<^verbatim>\<open>main\<close>
  returns normally, when the key is missing or empty.
\<close>

definition main_bots ::
  "string \<Rightarrow> string option \<Rightarrow> (HoneycombBot world \<Rightarrow> (error + unit) \<times> HoneycombBot world) \<Rightarrow>
   request list \<Rightarrow> (error + unit) \<times> request list" where
  "main_bots BASE_URL key demo tr =
     (if not_key key then (Inr (), tr)
      else (case init BASE_URL key None tr of
              (Inl e, tr') \<Rightarrow> (Inl e, tr')
            | (Inr bot', tr') \<Rightarrow>
                (let (r, w') = demo \<lparr>store = bot', sent = tr'\<rparr> in (r, sent w'))))"

section \<open>Notions the claims are stated with\<close>

text \<open>
  A server that answers every request with the same response, as a mock server in a test
  does.
\<close>

definition mock :: "response \<Rightarrow> net" where
  "mock res tr rq = Some res"


text \<open>
  The module globals of \<^verbatim>\<open>bot-example.py\<close> loaded with the key
  \<^verbatim>\<open>hcb_xxx\<close> of its docstring and no \<^verbatim>\<open>HONEYCOMB_API_URL\<close>, and a client of
  \<^verbatim>\<open>honeycomb_bot.py\<close> built on the default base URL; nothing sent yet.
\<close>

definition example_world :: "module world" where
  "example_world =
     \<lparr>store = \<lparr>API_BASE = ''https://your-honeycomb-url.replit.app'', API_KEY = ''hcb_xxx'',
               HEADERS = [(''X-API-Key'', Some ''hcb_xxx''),
                          (''Content-Type'', Some ''application/json'')]\<rparr>,
      sent = []\<rparr>"

definition bots_world :: "HoneycombBot world" where
  "bots_world =
     \<lparr>store = \<lparr>api_key = Some ''your-api-key'',
               base_url = ''https://thehoneycomb.social/api'',
               headers = [(''X-Bot-API-Key'', Some ''your-api-key''),
                          (''Content-Type'', Some ''application/json'')]\<rparr>,
      sent = []\<rparr>"


section \<open>What each method sends and returns\<close>

text \<open>
  Three facts for each method: the one request it hands to the library, that it leaves
  the store as it found it, and what it returns when the server answers \<open>res\<close>.
\<close>

lemma get_profile_sent:
  "sent (snd (get_profile nt w)) =
     sent w @
       [\<lparr>req_method = GET, req_url = API_BASE (store w) @ ''/api/bot/me'',
          req_headers = HEADERS (store w), req_params = None,
          req_json = None\<rparr>]"
  by (simp add: get_profile_def requests_get_def Let_def)

lemma get_profile_store: "store (snd (get_profile nt w)) = store w"
  by (simp add: get_profile_def requests_get_def Let_def)


lemma get_feed_sent:
  "sent (snd (get_feed s nt w)) =
     sent w @
       [\<lparr>req_method = GET, req_url = API_BASE (store w) @ ''/api/bot/feed?sort='' @ default_arg ''new'' s,
          req_headers = HEADERS (store w), req_params = None,
          req_json = None\<rparr>]"
  by (simp add: get_feed_def requests_get_def Let_def)

lemma get_feed_store: "store (snd (get_feed s nt w)) = store w"
  by (simp add: get_feed_def requests_get_def Let_def)

lemma get_feed_result:
  "fst (get_feed s (mock res) w) =
     (if 400 \<le> status_code res \<and> status_code res < 600 then Inl (HTTPError res)
      else bind_error (response_json res) (\<lambda>j. dict_get j ''posts'' (JArr [])))"
  by (simp add: get_feed_def requests_get_def Let_def mock_def bind_error_def raise_for_status_def)

lemma get_post_sent:
  "sent (snd (get_post p nt w)) =
     sent w @
       [\<lparr>req_method = GET, req_url = API_BASE (store w) @ ''/api/bot/posts/'' @ p,
          req_headers = HEADERS (store w), req_params = None,
          req_json = None\<rparr>]"
  by (simp add: get_post_def requests_get_def Let_def)

lemma get_post_store: "store (snd (get_post p nt w)) = store w"
  by (simp add: get_post_def requests_get_def Let_def)

lemma get_post_result:
  "fst (get_post p (mock res) w) =
     (if 400 \<le> status_code res \<and> status_code res < 600 then Inl (HTTPError res)
      else bind_error (response_json res) (\<lambda>j. dict_get j ''post'' JNull))"
  by (simp add: get_post_def requests_get_def Let_def mock_def bind_error_def raise_for_status_def)

lemma create_post_sent:
  "sent (snd (create_post t b tags nt w)) =
     sent w @
       [\<lparr>req_method = POST, req_url = API_BASE (store w) @ ''/api/bot/posts'',
          req_headers = HEADERS (store w), req_params = None,
          req_json = Some (JObj (if truthy tags
                 then [(''title'', JStr t), (''body'', JStr b), (''tags'', JArr (the tags))]
                 else [(''title'', JStr t), (''body'', JStr b)]))\<rparr>]"
  by (simp add: create_post_def requests_post_def Let_def)

lemma create_post_store: "store (snd (create_post t b tags nt w)) = store w"
  by (simp add: create_post_def requests_post_def Let_def)

lemma create_post_result:
  "fst (create_post t b tags (mock res) w) =
     (if 400 \<le> status_code res \<and> status_code res < 600 then Inl (HTTPError res)
      else response_json res)"
  by (simp add: create_post_def requests_post_def Let_def mock_def bind_error_def raise_for_status_def)

lemma comment_sent:
  "sent (snd (comment p b nt w)) =
     sent w @
       [\<lparr>req_method = POST, req_url = API_BASE (store w) @ ''/api/bot/posts/'' @ p @ ''/comments'',
          req_headers = HEADERS (store w), req_params = None,
          req_json = Some (JObj [(''body'', JStr b)])\<rparr>]"
  by (simp add: comment_def requests_post_def Let_def)

lemma comment_store: "store (snd (comment p b nt w)) = store w"
  by (simp add: comment_def requests_post_def Let_def)


lemma vote_sent:
  "sent (snd (vote p d nt w)) =
     sent w @
       [\<lparr>req_method = POST, req_url = API_BASE (store w) @ ''/api/bot/posts/'' @ p @ ''/vote'',
          req_headers = HEADERS (store w), req_params = None,
          req_json = Some (JObj [(''direction'', JStr d)])\<rparr>]"
  by (simp add: vote_def requests_post_def Let_def)

lemma vote_store: "store (snd (vote p d nt w)) = store w"
  by (simp add: vote_def requests_post_def Let_def)

lemma vote_result:
  "fst (vote p d (mock res) w) =
     (if 400 \<le> status_code res \<and> status_code res < 600 then Inl (HTTPError res)
      else response_json res)"
  by (simp add: vote_def requests_post_def Let_def mock_def bind_error_def raise_for_status_def)

lemma get_me_sent:
  "sent (snd (get_me nt w)) =
     sent w @
       [\<lparr>req_method = GET, req_url = base_url (store w) @ ''/bot/me'',
          req_headers = headers (store w), req_params = None,
          req_json = None\<rparr>]"
  by (simp add: get_me_def requests_get_def Let_def)

lemma get_me_store: "store (snd (get_me nt w)) = store w"
  by (simp add: get_me_def requests_get_def Let_def)


lemma create_post_bots_sent:
  "sent (snd (create_post_bots t b tags nt w)) =
     sent w @
       [\<lparr>req_method = POST, req_url = base_url (store w) @ ''/bot/posts'',
          req_headers = headers (store w), req_params = None,
          req_json = Some (JObj [(''title'', JStr t), (''body'', JStr b),
                 (''tags'', JArr (or_list tags []))])\<rparr>]"
  by (simp add: create_post_bots_def requests_post_def Let_def)

lemma create_post_bots_store: "store (snd (create_post_bots t b tags nt w)) = store w"
  by (simp add: create_post_bots_def requests_post_def Let_def)

lemma create_post_bots_result:
  "fst (create_post_bots t b tags (mock res) w) =
     (if 400 \<le> status_code res \<and> status_code res < 600 then Inl (HTTPError res)
      else response_json res)"
  by (simp add: create_post_bots_def requests_post_def Let_def mock_def bind_error_def raise_for_status_def)

lemma comment_on_post_sent:
  "sent (snd (comment_on_post p b nt w)) =
     sent w @
       [\<lparr>req_method = POST, req_url = base_url (store w) @ ''/bot/posts/'' @ p @ ''/comments'',
          req_headers = headers (store w), req_params = None,
          req_json = Some (JObj [(''body'', JStr b)])\<rparr>]"
  by (simp add: comment_on_post_def requests_post_def Let_def)

lemma comment_on_post_store: "store (snd (comment_on_post p b nt w)) = store w"
  by (simp add: comment_on_post_def requests_post_def Let_def)


lemma vote_on_post_sent:
  "sent (snd (vote_on_post p d nt w)) =
     sent w @
       [\<lparr>req_method = POST, req_url = base_url (store w) @ ''/bot/posts/'' @ p @ ''/vote'',
          req_headers = headers (store w), req_params = None,
          req_json = Some (JObj [(''direction'', JStr (default_arg ''up'' d))])\<rparr>]"
  by (simp add: vote_on_post_def requests_post_def Let_def)

lemma vote_on_post_store: "store (snd (vote_on_post p d nt w)) = store w"
  by (simp add: vote_on_post_def requests_post_def Let_def)

lemma vote_on_post_result:
  "fst (vote_on_post p d (mock res) w) =
     (if 400 \<le> status_code res \<and> status_code res < 600 then Inl (HTTPError res)
      else response_json res)"
  by (simp add: vote_on_post_def requests_post_def Let_def mock_def bind_error_def raise_for_status_def)

lemma get_feed_bots_sent:
  "sent (snd (get_feed_bots l off nt w)) =
     sent w @
       [\<lparr>req_method = GET, req_url = base_url (store w) @ ''/bot/feed'',
          req_headers = headers (store w), req_params = Some [(''limit'', default_arg 20 l), (''offset'', default_arg 0 off)],
          req_json = None\<rparr>]"
  by (simp add: get_feed_bots_def requests_get_def Let_def)

lemma get_feed_bots_store: "store (snd (get_feed_bots l off nt w)) = store w"
  by (simp add: get_feed_bots_def requests_get_def Let_def)

lemma get_feed_bots_result:
  "fst (get_feed_bots l off (mock res) w) =
     (if 400 \<le> status_code res \<and> status_code res < 600 then Inl (HTTPError res)
      else response_json res)"
  by (simp add: get_feed_bots_def requests_get_def Let_def mock_def bind_error_def raise_for_status_def)

lemma enable_heartbeat_sent:
  "sent (snd (enable_heartbeat i m topics pers nt w)) =
     sent w @
       [\<lparr>req_method = POST, req_url = base_url (store w) @ ''/bot/heartbeat/enable'',
          req_headers = headers (store w), req_params = None,
          req_json = Some (JObj [(''intervalMinutes'', JInt (default_arg 30 i)),
                 (''maxDailyPosts'', JInt (default_arg 48 m)),
                 (''topics'', JArr (or_list topics [JStr ''AI'', JStr ''blockchain'', JStr ''DeFi''])),
                 (''personality'', JStr (default_arg ''autonomous'' pers))])\<rparr>]"
  by (simp add: enable_heartbeat_def requests_post_def Let_def)

lemma enable_heartbeat_store: "store (snd (enable_heartbeat i m topics pers nt w)) = store w"
  by (simp add: enable_heartbeat_def requests_post_def Let_def)


lemma disable_heartbeat_sent:
  "sent (snd (disable_heartbeat nt w)) =
     sent w @
       [\<lparr>req_method = POST, req_url = base_url (store w) @ ''/bot/heartbeat/disable'',
          req_headers = headers (store w), req_params = None,
          req_json = None\<rparr>]"
  by (simp add: disable_heartbeat_def requests_post_def Let_def)

lemma disable_heartbeat_store: "store (snd (disable_heartbeat nt w)) = store w"
  by (simp add: disable_heartbeat_def requests_post_def Let_def)


section \<open>The claims\<close>




text \<open>
  C2, as the claim states it, fails for \<^verbatim>\<open>bot-example.py\<close>: called without
  \<^verbatim>\<open>tags\<close>, its \<^verbatim>\<open>create_post\<close> sends a body with the fields
  \<^verbatim>\<open>title\<close> and \<^verbatim>\<open>body\<close> only, and no \<^verbatim>\<open>tags\<close> field.
\<close>

theorem create_post_omits_tags:
  "req_json (last (sent (snd (create_post ''T'' ''B'' None
       (mock \<lparr>status_code = 201, payload = Some (JObj [(''id'', JStr ''p1'')])\<rparr>)
       example_world))))
     = Some (JObj [(''title'', JStr ''T''), (''body'', JStr ''B'')])"
  by (simp add: create_post_sent truthy_def)

text \<open>
  C2, amended. For all strings \<open>t\<close> and \<open>b\<close>: \<^verbatim>\<open>create_post\<close> of
  \<^verbatim>\<open>honeycomb_bot.py\<close> sends a body with exactly \<^verbatim>\<open>title\<close>, \<^verbatim>\<open>body\<close>
  and \<^verbatim>\<open>tags\<close>, where \<^verbatim>\<open>tags\<close> is the empty list when the caller omits it
  (or passes an empty list); \<^verbatim>\<open>create_post\<close> of \<^verbatim>\<open>bot-example.py\<close> sends
  \<^verbatim>\<open>title\<close> and \<^verbatim>\<open>body\<close>, and \<^verbatim>\<open>tags\<close> only when the caller passes a
  non-empty list. On a response with a status from 200 to 299 and a JSON body, both
  return the decoded body unchanged.
\<close>

theorem create_post_body_and_result:
  "sent (snd (create_post_bots t b tags nt v)) =
     sent v @
       [\<lparr>req_method = POST, req_url = base_url (store v) @ ''/bot/posts'',
         req_headers = headers (store v), req_params = None,
         req_json = Some (JObj [(''title'', JStr t), (''body'', JStr b),
                                (''tags'', JArr (case tags of None \<Rightarrow> [] | Some ts \<Rightarrow> ts))])\<rparr>]
   \<and> sent (snd (create_post t b tags nt w)) =
     sent w @
       [\<lparr>req_method = POST, req_url = API_BASE (store w) @ ''/api/bot/posts'',
         req_headers = HEADERS (store w), req_params = None,
         req_json = Some (JObj ([(''title'', JStr t), (''body'', JStr b)] @
                        (case tags of None \<Rightarrow> [] | Some [] \<Rightarrow> []
                         | Some (x # xs) \<Rightarrow> [(''tags'', JArr (x # xs))])))\<rparr>]
   \<and> (200 \<le> status_code res \<and> status_code res \<le> 299 \<and> payload res = Some j \<longrightarrow>
        fst (create_post_bots t b tags (mock res) v) = Inr j
        \<and> fst (create_post t b tags (mock res) w) = Inr j)"
  by (simp add: create_post_bots_sent create_post_sent create_post_bots_result
      create_post_result response_json_def or_list_def truthy_def
      split: option.split list.split)

theorem create_post_body_and_result_witness:
  "fst (create_post_bots ''Hello from Python Bot'' ''Greetings'' None
          (mock \<lparr>status_code = 201, payload = Some (JObj [(''id'', JStr ''p9'')])\<rparr>)
          bots_world) = Inr (JObj [(''id'', JStr ''p9'')])
   \<and> fst (create_post ''Hello from Honeycomb Bot!'' ''This is an automated post''
          (Some [JStr ''bot'', JStr ''python'', JStr ''automated''])
          (mock \<lparr>status_code = 201, payload = Some (JObj [(''id'', JStr ''p9'')])\<rparr>)
          example_world) = Inr (JObj [(''id'', JStr ''p9'')])"
  using create_post_body_and_result
          [where res = "\<lparr>status_code = 201, payload = Some (JObj [(''id'', JStr ''p9'')])\<rparr>"
             and j = "JObj [(''id'', JStr ''p9'')]"
             and t = "''Hello from Python Bot''" and b = "''Greetings''" and tags = None
             and v = bots_world]
        create_post_body_and_result
          [where res = "\<lparr>status_code = 201, payload = Some (JObj [(''id'', JStr ''p9'')])\<rparr>"
             and j = "JObj [(''id'', JStr ''p9'')]"
             and t = "''Hello from Honeycomb Bot!''" and b = "''This is an automated post''"
             and tags = "Some [JStr ''bot'', JStr ''python'', JStr ''automated'']"
             and w = example_world]
  by simp

text \<open>
  C3, as the claim states it, fails: built with the key absent, the client of
  \<^verbatim>\<open>honeycomb_bot.py\<close> is constructed, with the absent key in its header dict,
  and no error is raised.
\<close>

theorem init_accepts_missing_key:
  "init ''https://thehoneycomb.social/api'' None None [] =
     (Inr \<lparr>api_key = None, base_url = ''https://thehoneycomb.social/api'',
            headers = [(''X-Bot-API-Key'', None),
                       (''Content-Type'', Some ''application/json'')]\<rparr>, [])"
  by (simp add: init_def default_arg_def)

text \<open>
  C3, amended. The constructor of \<^verbatim>\<open>honeycomb_bot.py\<close> checks nothing: whatever
  the key, absent included, it returns a client holding that key and sends no request.
  The absent or empty key is caught by the callers, before any request is sent:
  \<^verbatim>\<open>main\<close> of \<^verbatim>\<open>honeycomb_bot.py\<close> returns without constructing the client,
  and \<^verbatim>\<open>bot-example.py\<close> exits with status 1 while the module is loaded.
\<close>

theorem missing_key_is_caught_by_callers:
  "init B key url tr =
     (Inr \<lparr>api_key = key, base_url = default_arg B url,
            headers = [(''X-Bot-API-Key'', key),
                       (''Content-Type'', Some ''application/json'')]\<rparr>, tr)
   \<and> (not_key key \<longrightarrow> main_bots B key demo tr = (Inr (), tr))
   \<and> (not_key key \<longrightarrow> load_module base key tr = (Inl (SystemExit 1), tr))"
  by (simp add: init_def main_bots_def load_module_def)

theorem missing_key_is_caught_by_callers_witness:
  "main_bots ''https://thehoneycomb.social/api'' None
     (\<lambda>w. (Inr (), snd (get_me (mock \<lparr>status_code = 200, payload = Some (JObj [])\<rparr>) w))) []
     = (Inr (), [])
   \<and> load_module ''https://your-honeycomb-url.replit.app'' (Some '''') []
     = (Inl (SystemExit 1), [])"
  using missing_key_is_caught_by_callers
          [where key = None and B = "''https://thehoneycomb.social/api''"
             and demo = "\<lambda>w. (Inr (), snd (get_me (mock \<lparr>status_code = 200, payload = Some (JObj [])\<rparr>) w))"
             and tr = "[]"]
        missing_key_is_caught_by_callers
          [where key = "Some ''''" and tr = "[]"
             and base = "''https://your-honeycomb-url.replit.app''"]
  by (simp add: not_key_def)

text \<open>
  C4, as the claim states it, fails for the limit/offset variant: on the feed envelope of
  the end-to-end scenario, \<^verbatim>\<open>get_feed\<close> of \<^verbatim>\<open>honeycomb_bot.py\<close> returns the
  envelope itself, not the sequence under \<^verbatim>\<open>posts\<close>.
\<close>

theorem get_feed_bots_returns_envelope:
  "fst (get_feed_bots None None
          (mock \<lparr>status_code = 200,
                 payload = Some (JObj [(''posts'',
                   JArr [JObj [(''id'', JStr ''p1''), (''title'', JStr ''T''),
                               (''upvotes'', JInt 3)]])])\<rparr>)
          bots_world)
     = Inr (JObj [(''posts'',
                   JArr [JObj [(''id'', JStr ''p1''), (''title'', JStr ''T''),
                               (''upvotes'', JInt 3)]])])"
  by (simp add: get_feed_bots_result response_json_def)

text \<open>
  C4, amended. For every response with a status from 200 to 299 whose body is a JSON
  object with a \<^verbatim>\<open>posts\<close> field, \<^verbatim>\<open>get_feed\<close> of \<^verbatim>\<open>bot-example.py\<close> (the
  sort variant) returns the value of that field, and \<^verbatim>\<open>get_feed\<close> of
  \<^verbatim>\<open>honeycomb_bot.py\<close> (the limit/offset variant) returns the whole envelope.
\<close>

theorem get_feed_posts_or_envelope:
  "200 \<le> status_code res \<and> status_code res \<le> 299 \<and> payload res = Some (JObj kvs)
     \<and> map_of kvs ''posts'' = Some posts \<longrightarrow>
     fst (get_feed s (mock res) w) = Inr posts
     \<and> fst (get_feed_bots l off (mock res) v) = Inr (JObj kvs)"
  by (simp add: get_feed_result get_feed_bots_result response_json_def bind_error_def
      dict_get_def)

theorem get_feed_posts_or_envelope_witness:
  "fst (get_feed (Some ''new'')
          (mock \<lparr>status_code = 200,
                 payload = Some (JObj [(''posts'',
                   JArr [JObj [(''id'', JStr ''p1''), (''title'', JStr ''T''),
                               (''upvotes'', JInt 3)]])])\<rparr>)
          example_world)
     = Inr (JArr [JObj [(''id'', JStr ''p1''), (''title'', JStr ''T''),
                        (''upvotes'', JInt 3)]])
   \<and> fst (get_feed_bots (Some 5) None
          (mock \<lparr>status_code = 200,
                 payload = Some (JObj [(''posts'',
                   JArr [JObj [(''id'', JStr ''p1''), (''title'', JStr ''T''),
                               (''upvotes'', JInt 3)]])])\<rparr>)
          bots_world)
     = Inr (JObj [(''posts'',
                   JArr [JObj [(''id'', JStr ''p1''), (''title'', JStr ''T''),
                               (''upvotes'', JInt 3)]])])"
  using get_feed_posts_or_envelope
          [of "\<lparr>status_code = 200,
                 payload = Some (JObj [(''posts'',
                   JArr [JObj [(''id'', JStr ''p1''), (''title'', JStr ''T''),
                               (''upvotes'', JInt 3)]])])\<rparr>"
              "[(''posts'',
                   JArr [JObj [(''id'', JStr ''p1''), (''title'', JStr ''T''),
                               (''upvotes'', JInt 3)]])]"
              "JArr [JObj [(''id'', JStr ''p1''), (''title'', JStr ''T''),
                               (''upvotes'', JInt 3)]]"
              "Some ''new''" example_world "Some 5" None bots_world]
  by simp

text \<open>
  C5. No method changes the state it can reach: the store (the fields of the client of
  \<^verbatim>\<open>honeycomb_bot.py\<close>, the module globals of \<^verbatim>\<open>bot-example.py\<close>) is after
  the call what it was before. And a call does the same whenever it is made: the request
  it sends after any history \<open>sent w\<close> and against any server \<open>nt\<close> is the one it sends
  as the first call against any other server \<open>nt'\<close>.
\<close>

theorem methods_keep_store:
  "store (snd (get_profile nt w)) = store w
   \<and> store (snd (get_feed s nt w)) = store w
   \<and> store (snd (get_post p nt w)) = store w
   \<and> store (snd (create_post t b tags nt w)) = store w
   \<and> store (snd (comment p b nt w)) = store w
   \<and> store (snd (vote p d nt w)) = store w
   \<and> store (snd (get_me nt v)) = store v
   \<and> store (snd (create_post_bots t b tags nt v)) = store v
   \<and> store (snd (comment_on_post p b nt v)) = store v
   \<and> store (snd (vote_on_post p d' nt v)) = store v
   \<and> store (snd (get_feed_bots l off nt v)) = store v
   \<and> store (snd (enable_heartbeat i m topics pers nt v)) = store v
   \<and> store (snd (disable_heartbeat nt v)) = store v
   \<and> sent (snd (get_profile nt w)) = sent w @ sent (snd (get_profile nt' (w\<lparr>sent := []\<rparr>)))
   \<and> sent (snd (get_feed s nt w)) = sent w @ sent (snd (get_feed s nt' (w\<lparr>sent := []\<rparr>)))
   \<and> sent (snd (get_post p nt w)) = sent w @ sent (snd (get_post p nt' (w\<lparr>sent := []\<rparr>)))
   \<and> sent (snd (create_post t b tags nt w)) =
       sent w @ sent (snd (create_post t b tags nt' (w\<lparr>sent := []\<rparr>)))
   \<and> sent (snd (comment p b nt w)) = sent w @ sent (snd (comment p b nt' (w\<lparr>sent := []\<rparr>)))
   \<and> sent (snd (vote p d nt w)) = sent w @ sent (snd (vote p d nt' (w\<lparr>sent := []\<rparr>)))
   \<and> sent (snd (get_me nt v)) = sent v @ sent (snd (get_me nt' (v\<lparr>sent := []\<rparr>)))
   \<and> sent (snd (create_post_bots t b tags nt v)) =
       sent v @ sent (snd (create_post_bots t b tags nt' (v\<lparr>sent := []\<rparr>)))
   \<and> sent (snd (comment_on_post p b nt v)) =
       sent v @ sent (snd (comment_on_post p b nt' (v\<lparr>sent := []\<rparr>)))
   \<and> sent (snd (vote_on_post p d' nt v)) =
       sent v @ sent (snd (vote_on_post p d' nt' (v\<lparr>sent := []\<rparr>)))
   \<and> sent (snd (get_feed_bots l off nt v)) =
       sent v @ sent (snd (get_feed_bots l off nt' (v\<lparr>sent := []\<rparr>)))
   \<and> sent (snd (enable_heartbeat i m topics pers nt v)) =
       sent v @ sent (snd (enable_heartbeat i m topics pers nt' (v\<lparr>sent := []\<rparr>)))
   \<and> sent (snd (disable_heartbeat nt v)) =
       sent v @ sent (snd (disable_heartbeat nt' (v\<lparr>sent := []\<rparr>)))"
  by (simp add: get_profile_store get_feed_store get_post_store create_post_store
      comment_store vote_store get_me_store create_post_bots_store comment_on_post_store
      vote_on_post_store get_feed_bots_store enable_heartbeat_store disable_heartbeat_store
      get_profile_sent get_feed_sent get_post_sent create_post_sent
      comment_sent vote_sent get_me_sent create_post_bots_sent comment_on_post_sent
      vote_on_post_sent get_feed_bots_sent enable_heartbeat_sent disable_heartbeat_sent)

text \<open>
  C6, as the claim states it, fails: on a 200 response whose body is the empty JSON
  object, \<^verbatim>\<open>get_feed\<close> returns the default, the empty list, and signals nothing.
\<close>

theorem get_feed_defaults_on_missing_posts:
  "fst (get_feed None (mock \<lparr>status_code = 200, payload = Some (JObj [])\<rparr>) example_world)
     = Inr (JArr [])"
  by (simp add: get_feed_result response_json_def bind_error_def dict_get_def)

text \<open>
  C6, amended. For every response with a status from 200 to 299 whose body is a JSON
  object without the expected field, the method returns the default value and signals no
  error: \<^verbatim>\<open>get_feed\<close> the empty list when \<^verbatim>\<open>posts\<close> is missing,
  \<^verbatim>\<open>get_post\<close> \<^verbatim>\<open>None\<close> when \<^verbatim>\<open>post\<close> is missing.
\<close>

theorem missing_field_gives_default:
  "(200 \<le> status_code res \<and> status_code res \<le> 299 \<and> payload res = Some (JObj kvs)
      \<and> map_of kvs ''posts'' = None \<longrightarrow>
      fst (get_feed s (mock res) w) = Inr (JArr []))
   \<and> (200 \<le> status_code res \<and> status_code res \<le> 299 \<and> payload res = Some (JObj kvs)
      \<and> map_of kvs ''post'' = None \<longrightarrow>
      fst (get_post p (mock res) w) = Inr JNull)"
  by (simp add: get_feed_result get_post_result response_json_def bind_error_def dict_get_def)

theorem missing_field_gives_default_witness:
  "fst (get_feed (Some ''top'')
          (mock \<lparr>status_code = 201, payload = Some (JObj [(''count'', JInt 0)])\<rparr>)
          example_world) = Inr (JArr [])
   \<and> fst (get_post ''p7''
          (mock \<lparr>status_code = 201, payload = Some (JObj [(''count'', JInt 0)])\<rparr>)
          example_world) = Inr JNull"
  using missing_field_gives_default
          [of "\<lparr>status_code = 201, payload = Some (JObj [(''count'', JInt 0)])\<rparr>"
              "[(''count'', JInt 0)]" "Some ''top''" example_world "''p7''"]
  by simp

text \<open>
  C7. For every string \<open>d\<close>, \<^verbatim>\<open>vote\<close> and \<^verbatim>\<open>vote_on_post\<close> send exactly one
  request whose body is \<^verbatim>\<open>{"direction": d}\<close>, the value as given; no value of
  \<open>d\<close> stops the request from being sent. What the call returns is decided by the
  response alone, whatever \<open>d\<close> is: an error for a status that
  \<^verbatim>\<open>raise_for_status\<close> rejects, the decoded body otherwise.
\<close>

theorem vote_forwards_direction:
  "sent (snd (vote p d nt w)) =
     sent w @
       [\<lparr>req_method = POST, req_url = API_BASE (store w) @ ''/api/bot/posts/'' @ p @ ''/vote'',
         req_headers = HEADERS (store w), req_params = None,
         req_json = Some (JObj [(''direction'', JStr d)])\<rparr>]
   \<and> sent (snd (vote_on_post p (Some d) nt v)) =
     sent v @
       [\<lparr>req_method = POST, req_url = base_url (store v) @ ''/bot/posts/'' @ p @ ''/vote'',
         req_headers = headers (store v), req_params = None,
         req_json = Some (JObj [(''direction'', JStr d)])\<rparr>]
   \<and> fst (vote p d (mock res) w) =
       (if 400 \<le> status_code res \<and> status_code res < 600 then Inl (HTTPError res)
        else response_json res)
   \<and> fst (vote_on_post p (Some d) (mock res) v) =
       (if 400 \<le> status_code res \<and> status_code res < 600 then Inl (HTTPError res)
        else response_json res)"
  by (simp add: vote_sent vote_on_post_sent vote_result vote_on_post_result default_arg_def)



text \<open>
  C9, as the claim states it, fails: not every response with a status from 200 to 299
  gives a post or an absent value. On a 200 response whose body is the JSON value
  \<^verbatim>\<open>null\<close> \<^verbatim>\<open>get_post\<close> raises \<open>AttributeError\<close>, since
  \<^verbatim>\<open>res.json()\<close> is \<^verbatim>\<open>None\<close> and has no \<^verbatim>\<open>.get\<close>; on a 200 response
  whose body is not JSON it raises the decode error.
\<close>

theorem get_post_raises_on_2xx:
  "fst (get_post ''p1'' (mock \<lparr>status_code = 200, payload = Some JNull\<rparr>) example_world)
     = Inl AttributeError
   \<and> fst (get_post ''p1'' (mock \<lparr>status_code = 200, payload = None\<rparr>) example_world)
     = Inl JSONDecodeError"
  by (simp add: get_post_result response_json_def bind_error_def dict_get_def)

text \<open>
  C9, amended. For every id and every response with a status from 200 to 299 whose body
  is a JSON object, \<^verbatim>\<open>get_post\<close> returns the value of the \<^verbatim>\<open>post\<close> field of
  that object, and \<^verbatim>\<open>None\<close>, not an error, when the object has no such field.
\<close>

theorem get_post_returns_post_or_absent:
  "200 \<le> status_code res \<and> status_code res \<le> 299 \<and> payload res = Some (JObj kvs) \<longrightarrow>
     fst (get_post p (mock res) w) =
       Inr (case map_of kvs ''post'' of None \<Rightarrow> JNull | Some post \<Rightarrow> post)"
  by (simp add: get_post_result response_json_def bind_error_def dict_get_def)

theorem get_post_returns_post_or_absent_witness:
  "fst (get_post ''p1''
          (mock \<lparr>status_code = 200,
                 payload = Some (JObj [(''post'', JObj [(''id'', JStr ''p1'')])])\<rparr>)
          example_world) = Inr (JObj [(''id'', JStr ''p1'')])
   \<and> fst (get_post ''p2'' (mock \<lparr>status_code = 200, payload = Some (JObj [])\<rparr>)
          example_world) = Inr JNull"
  using get_post_returns_post_or_absent
          [of "\<lparr>status_code = 200,
                 payload = Some (JObj [(''post'', JObj [(''id'', JStr ''p1'')])])\<rparr>"
              "[(''post'', JObj [(''id'', JStr ''p1'')])]" "''p1''" example_world]
        get_post_returns_post_or_absent
          [of "\<lparr>status_code = 200, payload = Some (JObj [])\<rparr>" "[]" "''p2''" example_world]
  by simp

text \<open>
  C10. \<^verbatim>\<open>enable_heartbeat\<close> called with \<^verbatim>\<open>topics\<close> omitted or \<^verbatim>\<open>None\<close>
  (first conjunct) or with the empty list (second conjunct) sends the body with
  \<^verbatim>\<open>topics = ["AI", "blockchain", "DeFi"]\<close>; whatever the arguments, the
  \<^verbatim>\<open>topics\<close> field of the body sent is never the empty list (third conjunct); an
  omitted \<^verbatim>\<open>personality\<close> is sent as \<^verbatim>\<open>"autonomous"\<close> (fourth conjunct).
\<close>

theorem enable_heartbeat_defaults:
  "req_json (last (sent (snd (enable_heartbeat i m None pers nt w)))) =
     Some (JObj [(''intervalMinutes'', JInt (default_arg 30 i)),
                 (''maxDailyPosts'', JInt (default_arg 48 m)),
                 (''topics'', JArr [JStr ''AI'', JStr ''blockchain'', JStr ''DeFi'']),
                 (''personality'', JStr (default_arg ''autonomous'' pers))])
   \<and> req_json (last (sent (snd (enable_heartbeat i m (Some []) pers nt w)))) =
     Some (JObj [(''intervalMinutes'', JInt (default_arg 30 i)),
                 (''maxDailyPosts'', JInt (default_arg 48 m)),
                 (''topics'', JArr [JStr ''AI'', JStr ''blockchain'', JStr ''DeFi'']),
                 (''personality'', JStr (default_arg ''autonomous'' pers))])
   \<and> map_option (\<lambda>j. dict_get j ''topics'' JNull)
         (req_json (last (sent (snd (enable_heartbeat i m topics pers nt w)))))
       \<noteq> Some (Inr (JArr []))
   \<and> map_option (\<lambda>j. dict_get j ''personality'' JNull)
         (req_json (last (sent (snd (enable_heartbeat i m topics None nt w)))))
       = Some (Inr (JStr ''autonomous''))"
proof -
  have nonempty: "or_list topics [JStr ''AI'', JStr ''blockchain'', JStr ''DeFi''] \<noteq> []"
    by (cases topics) (simp_all add: or_list_def truthy_def)
  show ?thesis
    using nonempty
    by (simp add: enable_heartbeat_sent dict_get_def or_list_def truthy_def default_arg_def)
qed

end
